theory Spec2Isabelle
  imports Complex_Main
begin

section \<open>Finance hooks of the dashboard: \<open>src/hooks/useFinanceData.ts\<close>\<close>

text \<open>
  The file holds two query functions. \<open>useFinanceData\<close> asks the remote procedure
  \<open>get_finance_summary\<close> for a summary and, when that fails, rebuilds one from the rows of
  \<open>postings_fbs\<close>; both branches then derive the pie-chart categories from the summary.
  \<open>useFinanceBreakdown\<close> maps the rows of \<open>transactions\<close> one by one.

  Numbers are modelled as exact rationals: every payload number is a decimal, and the code
  only adds, subtracts, multiplies, divides and takes absolute values. Rounding of IEEE
  doubles, \<open>NaN\<close> and the infinities are outside the model. A sum of computed
  quotients is where the rounding shows, so no bound on the sum of the percentages is
  stated below; the bounds that are stated compare one quotient with 0 or 100, which
  rounding to nearest keeps.
\<close>

subsection \<open>Values\<close>

type_synonym number = rat

text \<open>A field of a row as the backend delivers it, before any coercion.\<close>

datatype raw = Undefined | Null | Num number | NonNumeric string

text \<open>Text shown to the user is a list of Unicode code points (the labels are Cyrillic).\<close>

type_synonym ustring = "nat list"

text \<open>
  Modelled from the spec: \<open>toNumber\<close> lives in \<open>lib/format\<close>, which is not part of the
  sources at hand. The specification describes it as the normalisation
  \<open>toNumber: unknown -> number\<close> with null, missing and non-numeric inputs all mapped to 0;
  a number is passed through.
\<close>

fun toNumber :: "raw \<Rightarrow> number" where
  "toNumber (Num n) = n"
| "toNumber Undefined = 0"
| "toNumber Null = 0"
| "toNumber (NonNumeric s) = 0"

text \<open>The JavaScript \<open>x || d\<close> on a number: 0 is falsy.\<close>

definition or_number :: "number \<Rightarrow> number \<Rightarrow> number" where
  "or_number x d = (if x = 0 then d else x)"

text \<open>\<open>x || y\<close> and \<open>x || 'literal'\<close> on nullable strings: null and the empty string are falsy.\<close>

definition truthy :: "string option \<Rightarrow> bool" where
  "truthy x = (case x of None \<Rightarrow> False | Some s \<Rightarrow> s \<noteq> [])"

definition or_string :: "string option \<Rightarrow> string option \<Rightarrow> string option" where
  "or_string x y = (if truthy x then x else y)"

definition or_literal :: "string option \<Rightarrow> string \<Rightarrow> string" where
  "or_literal x d = (case x of None \<Rightarrow> d | Some s \<Rightarrow> if s = [] then d else s)"

subsection \<open>Interfaces and tables\<close>

record FinanceCategory =
  category :: ustring
  amount :: number
  percentage :: number
  color :: string

record FinanceSummary =
  sales :: number
  commissions :: number
  delivery :: number
  returns :: number
  ads :: number
  services :: number
  totalIncome :: number
  totalExpenses :: number
  netProfit :: number

definition CATEGORY_COLORS :: "(string \<times> string) list" where
  "CATEGORY_COLORS =
     [(''sales'', ''#10b981''),
      (''commissions'', ''#ef4444''),
      (''delivery'', ''#f59e0b''),
      (''returns'', ''#8b5cf6''),
      (''ads'', ''#06b6d4''),
      (''services'', ''#84cc16'')]"

definition CATEGORY_LABELS :: "(string \<times> ustring) list" where
  "CATEGORY_LABELS =
     [(''sales'', [1055, 1088, 1086, 1076, 1072, 1078, 1080]),
      (''commissions'', [1050, 1086, 1084, 1080, 1089, 1089, 1080, 1080]),
      (''delivery'', [1044, 1086, 1089, 1090, 1072, 1074, 1082, 1072]),
      (''returns'', [1042, 1086, 1079, 1074, 1088, 1072, 1090, 1099]),
      (''ads'', [1056, 1077, 1082, 1083, 1072, 1084, 1072]),
      (''services'', [1059, 1089, 1083, 1091, 1075, 1080])]"

text \<open>\<open>key in CATEGORY_COLORS\<close>.\<close>

definition in_colors :: "string \<Rightarrow> bool" where
  "in_colors key = (map_of CATEGORY_COLORS key \<noteq> None)"

text \<open>
  \<open>CATEGORY_LABELS[key]\<close> and \<open>CATEGORY_COLORS[key]\<close>. A missing key reads as
  \<open>undefined\<close> in the source; it is the empty text here, and cannot be reached, since the
  lookups are guarded by \<open>in_colors\<close> and both tables have the same six keys.
\<close>

definition label_of :: "string \<Rightarrow> ustring" where
  "label_of key = (case map_of CATEGORY_LABELS key of Some l \<Rightarrow> l | None \<Rightarrow> [])"

definition color_of :: "string \<Rightarrow> string" where
  "color_of key = (case map_of CATEGORY_COLORS key of Some c \<Rightarrow> c | None \<Rightarrow> [])"

subsection \<open>The backend\<close>

datatype err = Err string

text \<open>
  What an awaited Supabase call does: the promise rejects, or it resolves to a pair
  \<open>{ data, error }\<close> in which either part may be null.
\<close>

datatype 'a outcome = Rejects err | Resolves "'a option" "err option"

text \<open>The failure of a call as the code sees it: a rejection, or a non-null \<open>error\<close>.\<close>

fun failure :: "'a outcome \<Rightarrow> err option" where
  "failure (Rejects e) = Some e"
| "failure (Resolves d e) = e"

text \<open>The \<open>data\<close> of a call; a rejected call has none.\<close>

fun payload :: "'a outcome \<Rightarrow> 'a option" where
  "payload (Rejects e) = None"
| "payload (Resolves d e) = d"

record rpc_row =
  total_sales :: raw
  total_commissions :: raw
  total_delivery :: raw
  total_returns :: raw
  total_ads :: raw
  total_services :: raw
  total_income :: raw
  total_expenses :: raw
  net_profit :: raw

record posting =
  price :: raw
  quantity :: raw
  commission_amount :: raw

record transaction_item =
  t_operation_id :: raw
  t_posting_number :: "string option"
  t_operation_type :: "string option"
  t_operation_type_name :: "string option"
  t_operation_date :: "string option"
  t_amount :: raw
  t_type :: "string option"

text \<open>
  The answers of the three remote calls for the active filters. The dates, the date type and
  the SKU only travel to the backend; of the filters, the code itself reads the region.
  The \<open>enabled\<close> flag (both dates set) decides whether a query function runs at all
  and is no part of the functions themselves.
\<close>

record backend =
  rpc :: "rpc_row list outcome"
  postings_fbs :: "posting list outcome"
  transactions :: "transaction_item list outcome"

record filters =
  dateFrom :: string
  dateTo :: string
  dateType :: string
  sku :: string
  region :: string

text \<open>What a run does besides returning: the remote calls it makes and the console lines.\<close>

datatype event =
    Rpc_call
  | Console_warn_rpc_failed err
  | Console_warn_region
  | Postings_query
  | Console_error_both_failed err
  | Transactions_query

subsection \<open>Categories for the pie chart (lines 77-96 and 163-182, the same text twice)\<close>

text \<open>\<open>Object.entries(summary)\<close>: the fields in the order of the object literal.\<close>

definition entries :: "FinanceSummary \<Rightarrow> (string \<times> number) list" where
  "entries s =
     [(''sales'', sales s),
      (''commissions'', commissions s),
      (''delivery'', delivery s),
      (''returns'', returns s),
      (''ads'', ads s),
      (''services'', services s),
      (''totalIncome'', totalIncome s),
      (''totalExpenses'', totalExpenses s),
      (''netProfit'', netProfit s)]"

text \<open>The body of the \<open>forEach\<close> callback; \<open>categories.push\<close> appends.\<close>

definition push_entry :: "number \<Rightarrow> FinanceCategory list \<Rightarrow> string \<times> number \<Rightarrow> FinanceCategory list" where
  "push_entry tot cats kv =
     (case kv of (key, v) \<Rightarrow>
        if in_colors key \<and> v \<noteq> 0 then
          (let amt = (if key = ''sales'' then v else \<bar>v\<bar>) in
           cats @
             [\<lparr>category = label_of key,
               amount = amt,
               percentage = (if tot > 0 then (amt / tot) * 100 else 0),
               color = color_of key\<rparr>])
        else cats)"

text \<open>
  \<open>Array.prototype.sort\<close> with a comparator: a stable sort that puts \<open>a\<close> before
  \<open>b\<close> when \<open>cmp a b\<close> is negative.
\<close>

fun insert_by :: "('a \<Rightarrow> 'a \<Rightarrow> number) \<Rightarrow> 'a \<Rightarrow> 'a list \<Rightarrow> 'a list" where
  "insert_by cmp x [] = [x]"
| "insert_by cmp x (y # ys) = (if cmp x y \<le> 0 then x # y # ys else y # insert_by cmp x ys)"

definition array_sort :: "('a \<Rightarrow> 'a \<Rightarrow> number) \<Rightarrow> 'a list \<Rightarrow> 'a list" where
  "array_sort cmp xs = foldr (insert_by cmp) xs []"

definition by_amount_desc :: "FinanceCategory \<Rightarrow> FinanceCategory \<Rightarrow> number" where
  "by_amount_desc a b = amount b - amount a"

definition pushed_categories :: "FinanceSummary \<Rightarrow> FinanceCategory list" where
  "pushed_categories s =
     (let tot = totalIncome s + totalExpenses s
      in foldl (push_entry tot) [] (entries s))"

record finance_data =
  summary :: FinanceSummary
  categories :: "FinanceCategory list"

definition with_categories :: "FinanceSummary \<Rightarrow> finance_data" where
  "with_categories s =
     \<lparr>summary = s, categories = array_sort by_amount_desc (pushed_categories s)\<rparr>"

subsection \<open>\<open>useFinanceData\<close>: the primary path (lines 51-96)\<close>

text \<open>\<open>data?.[0] || {}\<close>: the first row, or an object without fields.\<close>

definition no_fields :: rpc_row where
  "no_fields =
     \<lparr>total_sales = Undefined, total_commissions = Undefined, total_delivery = Undefined,
      total_returns = Undefined, total_ads = Undefined, total_services = Undefined,
      total_income = Undefined, total_expenses = Undefined, net_profit = Undefined\<rparr>"

fun first_row :: "rpc_row list option \<Rightarrow> rpc_row" where
  "first_row None = no_fields"
| "first_row (Some []) = no_fields"
| "first_row (Some (r # rs)) = r"

definition rpc_summary :: "rpc_row \<Rightarrow> FinanceSummary" where
  "rpc_summary result =
     \<lparr>sales = or_number (toNumber (total_sales result)) 0,
      commissions = or_number (toNumber (total_commissions result)) 0,
      delivery = or_number (toNumber (total_delivery result)) 0,
      returns = or_number (toNumber (total_returns result)) 0,
      ads = or_number (toNumber (total_ads result)) 0,
      services = or_number (toNumber (total_services result)) 0,
      totalIncome = or_number (toNumber (total_income result)) 0,
      totalExpenses = or_number (toNumber (total_expenses result)) 0,
      netProfit = or_number (toNumber (net_profit result)) 0\<rparr>"

definition primary :: "rpc_row list option \<Rightarrow> finance_data" where
  "primary data = with_categories (rpc_summary (first_row data))"

subsection \<open>\<open>useFinanceData\<close>: the fallback path (lines 98-183)\<close>

text \<open>The two \<open>reduce\<close> calls, with \<open>postingsData?.\<close> and the trailing \<open>|| 0\<close>.\<close>

definition totalSales :: "posting list option \<Rightarrow> number" where
  "totalSales postingsData =
     (case postingsData of
        None \<Rightarrow> 0
      | Some items \<Rightarrow>
          or_number
            (foldl (\<lambda>sum item.
                      sum + or_number (toNumber (price item)) 0
                            * or_number (toNumber (quantity item)) 0) 0 items) 0)"

definition totalCommissions :: "posting list option \<Rightarrow> number" where
  "totalCommissions postingsData =
     (case postingsData of
        None \<Rightarrow> 0
      | Some items \<Rightarrow>
          or_number
            (foldl (\<lambda>sum item.
                      sum + \<bar>or_number (toNumber (commission_amount item)) 0\<bar>) 0 items) 0)"

text \<open>The business ratio estimates: 8, 2, 3 and 5 per cent of the sales.\<close>

definition totalDelivery :: "posting list option \<Rightarrow> number" where
  "totalDelivery postingsData = totalSales postingsData * (8 / 100)"

definition totalReturns :: "posting list option \<Rightarrow> number" where
  "totalReturns postingsData = totalSales postingsData * (2 / 100)"

definition totalAds :: "posting list option \<Rightarrow> number" where
  "totalAds postingsData = totalSales postingsData * (3 / 100)"

definition totalServices :: "posting list option \<Rightarrow> number" where
  "totalServices postingsData = totalSales postingsData * (5 / 100)"

definition postings_summary :: "posting list option \<Rightarrow> FinanceSummary" where
  "postings_summary postingsData =
     (let expenses = totalCommissions postingsData + totalDelivery postingsData
                     + totalReturns postingsData + totalAds postingsData
                     + totalServices postingsData
      in \<lparr>sales = totalSales postingsData,
          commissions = totalCommissions postingsData,
          delivery = totalDelivery postingsData,
          returns = totalReturns postingsData,
          ads = totalAds postingsData,
          services = totalServices postingsData,
          totalIncome = totalSales postingsData,
          totalExpenses = expenses,
          netProfit = totalSales postingsData - expenses\<rparr>)"

text \<open>
  The \<open>catch\<close> block. A rejected postings query leaves the block as it is thrown; a
  resolved one with an error is logged and thrown.
\<close>

definition fallback :: "filters \<Rightarrow> backend \<Rightarrow> err \<Rightarrow> event list \<times> (err + finance_data)" where
  "fallback f b rpcError =
     (let evs = [Console_warn_rpc_failed rpcError]
                @ (if region f \<noteq> [] then [Console_warn_region] else [])
                @ [Postings_query]
      in case postings_fbs b of
           Rejects e \<Rightarrow> (evs, Inl e)
         | Resolves postingsData postingsError \<Rightarrow>
             (case postingsError of
                Some e \<Rightarrow> (evs @ [Console_error_both_failed e], Inl e)
              | None \<Rightarrow> (evs, Inr (with_categories (postings_summary postingsData)))))"

text \<open>The query function: the events of the run and what the caller gets.\<close>

definition useFinanceData :: "filters \<Rightarrow> backend \<Rightarrow> event list \<times> (err + finance_data)" where
  "useFinanceData f b =
     (case rpc b of
        Rejects e \<Rightarrow>
          (case fallback f b e of (evs, r) \<Rightarrow> (Rpc_call # evs, r))
      | Resolves data error \<Rightarrow>
          (case error of
             Some e \<Rightarrow> (case fallback f b e of (evs, r) \<Rightarrow> (Rpc_call # evs, r))
           | None \<Rightarrow> ([Rpc_call], Inr (primary data))))"

subsection \<open>\<open>useFinanceBreakdown\<close> (lines 189-221)\<close>

record breakdown_row =
  date_msk :: string
  posting_number :: string
  b_sales :: number
  b_commissions :: number
  b_delivery :: number
  b_returns :: number
  b_ads :: number
  b_services :: number
  b_net_profit :: number
  operation_type :: string

text \<open>
  The callback of \<open>map\<close>. \<open>today\<close> stands for \<open>formatMoscowDate(new Date())\<close>, the
  date of the run.
\<close>

definition map_item :: "string \<Rightarrow> transaction_item \<Rightarrow> breakdown_row" where
  "map_item today item =
     \<lparr>date_msk = or_literal (t_operation_date item) today,
      posting_number = or_literal (t_posting_number item) ''N/A'',
      b_sales = (if toNumber (t_amount item) > 0 then toNumber (t_amount item) else 0),
      b_commissions = (if toNumber (t_amount item) < 0 then \<bar>toNumber (t_amount item)\<bar> else 0),
      b_delivery = 0,
      b_returns = 0,
      b_ads = 0,
      b_services = 0,
      b_net_profit = or_number (toNumber (t_amount item)) 0,
      operation_type =
        or_literal (or_string (t_operation_type_name item) (t_operation_type item)) ''N/A''\<rparr>"

text \<open>\<open>data || []\<close>.\<close>

definition or_empty :: "'a list option \<Rightarrow> 'a list" where
  "or_empty data = (case data of None \<Rightarrow> [] | Some items \<Rightarrow> items)"

definition useFinanceBreakdown :: "string \<Rightarrow> backend \<Rightarrow> event list \<times> (err + breakdown_row list)" where
  "useFinanceBreakdown today b =
     (case transactions b of
        Rejects e \<Rightarrow> ([Transactions_query], Inl e)
      | Resolves data error \<Rightarrow>
          (case error of
             Some e \<Rightarrow> ([Transactions_query], Inl e)
           | None \<Rightarrow>
               ([Transactions_query],
                Inr (map (map_item today) (or_empty data)))))"

subsection \<open>Notions used in the statements\<close>

text \<open>The ledger entries a run of \<open>useFinanceBreakdown\<close> has fetched.\<close>

definition fetched :: "backend \<Rightarrow> transaction_item list" where
  "fetched b = or_empty (payload (transactions b))"

text \<open>
  The \<open>forEach\<close> loop read as a filter and a map: an entry is kept when its key is
  one of the six categories and its value is not 0, and a kept entry becomes one share.
\<close>

definition kept :: "string \<times> number \<Rightarrow> bool" where
  "kept kv = (in_colors (fst kv) \<and> snd kv \<noteq> 0)"

definition entry_amount :: "string \<times> number \<Rightarrow> number" where
  "entry_amount kv = (if fst kv = ''sales'' then snd kv else \<bar>snd kv\<bar>)"

definition share :: "number \<Rightarrow> string \<times> number \<Rightarrow> FinanceCategory" where
  "share tot kv =
     \<lparr>category = label_of (fst kv),
      amount = entry_amount kv,
      percentage = (if tot > 0 then (entry_amount kv / tot) * 100 else 0),
      color = color_of (fst kv)\<rparr>"

text \<open>Non-increasing by \<open>amount\<close>.\<close>

definition amounts_descend :: "FinanceCategory list \<Rightarrow> bool" where
  "amounts_descend cs = sorted_wrt (\<lambda>a b. amount b \<le> amount a) cs"

subsection \<open>Concrete runs\<close>

definition example_filters :: filters where
  "example_filters =
     \<lparr>dateFrom = ''2025-08-01'', dateTo = ''2025-08-29'', dateType = ''order_date'',
      sku = [], region = []\<rparr>"

definition example_posting :: posting where
  "example_posting = \<lparr>price = Num 100, quantity = Num 2, commission_amount = Num (- 10)\<rparr>"

definition example_item :: "number \<Rightarrow> transaction_item" where
  "example_item a =
     \<lparr>t_operation_id = Num 1, t_posting_number = Some ''0001-1'',
      t_operation_type = Some ''OperationAgentDeliveredToCustomer'', t_operation_type_name = None,
      t_operation_date = Some ''2025-08-02'', t_amount = Num a, t_type = Some ''orders''\<rparr>"

text \<open>The remote procedure is missing (the 404 of the README); the tables answer.\<close>

definition example_backend :: backend where
  "example_backend =
     \<lparr>rpc = Resolves None (Some (Err ''404'')),
      postings_fbs = Resolves (Some [example_posting]) None,
      transactions = Resolves (Some [example_item (- 50), example_item 30]) None\<rparr>"

text \<open>The remote procedure answers with one row of the given numbers.\<close>

definition rpc_answers :: "number \<Rightarrow> number \<Rightarrow> number \<Rightarrow> number \<Rightarrow> number \<Rightarrow> backend" where
  "rpc_answers s c income expenses net =
     example_backend
       \<lparr>rpc := Resolves
                 (Some [\<lparr>total_sales = Num s, total_commissions = Num c, total_delivery = Num 0,
                         total_returns = Num 0, total_ads = Num 0, total_services = Num 0,
                         total_income = Num income, total_expenses = Num expenses,
                         net_profit = Num net\<rparr>])
                 None\<rparr>"

section \<open>Helper lemmas\<close>

subsection \<open>Coercions\<close>

lemma or_number_zero [simp]: "or_number x 0 = x"
  by (simp add: or_number_def)

subsection \<open>Which branch a run takes\<close>

lemma useFinanceData_primary:
  "failure (rpc b) = None \<Longrightarrow>
   useFinanceData f b = ([Rpc_call], Inr (primary (payload (rpc b))))"
  by (cases "rpc b") (simp_all add: useFinanceData_def)

lemma useFinanceData_fallback:
  "failure (rpc b) = Some e \<Longrightarrow>
   useFinanceData f b = (Rpc_call # fst (fallback f b e), snd (fallback f b e))"
  by (cases "rpc b") (simp_all add: useFinanceData_def split: prod.splits)

lemma snd_fallback:
  "snd (fallback f b e) =
     (case failure (postings_fbs b) of
        Some e' \<Rightarrow> Inl e'
      | None \<Rightarrow> Inr (with_categories (postings_summary (payload (postings_fbs b)))))"
  by (cases "postings_fbs b") (simp_all add: fallback_def Let_def split: option.splits)

lemma fst_fallback:
  "set (fst (fallback f b e)) \<supseteq> {Console_warn_rpc_failed e, Postings_query}"
  by (cases "postings_fbs b") (auto simp: fallback_def Let_def split: option.splits)

lemma useFinanceData_result:
  assumes "snd (useFinanceData f b) = Inr r"
  shows "r = with_categories (summary r)"
proof (cases "failure (rpc b)")
  case None
  with assms have "r = primary (payload (rpc b))"
    by (simp add: useFinanceData_primary)
  then show ?thesis by (simp add: primary_def with_categories_def)
next
  case (Some e)
  with assms have "snd (fallback f b e) = Inr r"
    by (simp add: useFinanceData_fallback)
  then have "r = with_categories (postings_summary (payload (postings_fbs b)))"
    by (simp add: snd_fallback split: option.splits)
  then show ?thesis by (simp add: with_categories_def)
qed

lemma useFinanceData_fallback_summary:
  assumes "snd (useFinanceData f b) = Inr r" and "failure (rpc b) \<noteq> None"
  shows "summary r = postings_summary (payload (postings_fbs b))"
proof -
  from assms(2) obtain e where e: "failure (rpc b) = Some e" by auto
  with assms(1) have "snd (fallback f b e) = Inr r"
    by (simp add: useFinanceData_fallback)
  then show ?thesis
    by (auto simp: snd_fallback with_categories_def split: option.splits)
qed

lemma useFinanceData_primary_summary:
  assumes "snd (useFinanceData f b) = Inr r" and "failure (rpc b) = None"
  shows "summary r = rpc_summary (first_row (payload (rpc b)))"
  using assms by (auto simp: useFinanceData_primary primary_def with_categories_def)

lemma rpc_example_backend [simp]:
  "rpc example_backend = Resolves None (Some (Err ''404''))"
  by (simp add: example_backend_def)

lemma rpc_rpc_answers [simp]:
  "rpc (rpc_answers s c i x n) =
     Resolves
       (Some [\<lparr>total_sales = Num s, total_commissions = Num c, total_delivery = Num 0,
               total_returns = Num 0, total_ads = Num 0, total_services = Num 0,
               total_income = Num i, total_expenses = Num x, net_profit = Num n\<rparr>])
       None"
  by (simp add: rpc_answers_def)

lemma example_backend_fallback [simp]:
  "snd (useFinanceData example_filters example_backend) =
     Inr (with_categories (postings_summary (Some [example_posting])))"
  by (simp add: useFinanceData_def example_backend_def fallback_def Let_def split: prod.splits)

lemma rpc_answers_primary [simp]:
  "snd (useFinanceData example_filters (rpc_answers s c i x n)) =
     Inr (with_categories
       \<lparr>sales = s, commissions = c, delivery = 0, returns = 0, ads = 0, services = 0,
        totalIncome = i, totalExpenses = x, netProfit = n\<rparr>)"
  by (simp add: useFinanceData_def rpc_answers_def example_backend_def primary_def rpc_summary_def)

lemma example_postings_summary:
  "postings_summary (Some [example_posting]) =
     \<lparr>sales = 200, commissions = 10, delivery = 16, returns = 4, ads = 6, services = 10,
      totalIncome = 200, totalExpenses = 46, netProfit = 154\<rparr>"
  by (simp add: postings_summary_def totalSales_def totalCommissions_def totalDelivery_def
      totalReturns_def totalAds_def totalServices_def example_posting_def Let_def)

subsection \<open>The loop over the entries\<close>

lemma foldl_push_entry:
  "foldl (push_entry tot) acc es = acc @ map (share tot) (filter kept es)"
  by (induction es arbitrary: acc)
     (auto simp: push_entry_def kept_def share_def entry_amount_def Let_def)

lemma pushed_categories_eq:
  "pushed_categories s = map (share (totalIncome s + totalExpenses s)) (filter kept (entries s))"
  by (simp add: pushed_categories_def Let_def foldl_push_entry)

lemma in_colors_iff:
  "in_colors key \<longleftrightarrow>
     key \<in> {''sales'', ''commissions'', ''delivery'', ''returns'', ''ads'', ''services''}"
  by (simp add: in_colors_def CATEGORY_COLORS_def)

lemma colored_entries:
  "filter (\<lambda>kv. in_colors (fst kv)) (entries s) =
     [(''sales'', sales s), (''commissions'', commissions s), (''delivery'', delivery s),
      (''returns'', returns s), (''ads'', ads s), (''services'', services s)]"
  by (simp add: entries_def in_colors_iff)

lemma filter_kept:
  "filter kept es = filter (\<lambda>kv. snd kv \<noteq> 0) (filter (\<lambda>kv. in_colors (fst kv)) es)"
  by (induction es) (simp_all add: kept_def)

lemma kept_entry_iff:
  "kv \<in> set (entries s) \<and> kept kv \<longleftrightarrow>
     snd kv \<noteq> 0 \<and>
     kv \<in> {(''sales'', sales s), (''commissions'', commissions s), (''delivery'', delivery s),
            (''returns'', returns s), (''ads'', ads s), (''services'', services s)}"
proof -
  have "kv \<in> set (entries s) \<and> kept kv \<longleftrightarrow> kv \<in> set (filter kept (entries s))"
    by simp
  also have "\<dots> \<longleftrightarrow> snd kv \<noteq> 0 \<and> kv \<in> set (filter (\<lambda>kv. in_colors (fst kv)) (entries s))"
    by (simp only: filter_kept set_filter mem_Collect_eq conj_commute)
  finally show ?thesis by (simp only: colored_entries list.set)
qed

lemma kept_amount_drop_zero:
  "sum_list (map entry_amount (filter kept es)) =
   sum_list (map entry_amount (filter (\<lambda>kv. in_colors (fst kv)) es))"
  by (induction es) (auto simp: kept_def entry_amount_def)

lemma kept_amount_sum:
  "sum_list (map entry_amount (filter kept (entries s))) =
   sales s + \<bar>commissions s\<bar> + \<bar>delivery s\<bar> + \<bar>returns s\<bar> + \<bar>ads s\<bar> + \<bar>services s\<bar>"
  by (simp add: kept_amount_drop_zero colored_entries entry_amount_def)

subsection \<open>The sort\<close>

lemma set_insert_by: "set (insert_by cmp x xs) = insert x (set xs)"
  by (induction xs) auto

lemma set_array_sort: "set (array_sort cmp xs) = set xs"
  by (induction xs) (simp_all add: array_sort_def set_insert_by)

lemma sum_insert_by:
  fixes g :: "'a \<Rightarrow> number"
  shows "sum_list (map g (insert_by cmp x xs)) = g x + sum_list (map g xs)"
  by (induction xs) auto

lemma sum_array_sort:
  fixes g :: "'a \<Rightarrow> number"
  shows "sum_list (map g (array_sort cmp xs)) = sum_list (map g xs)"
  by (induction xs) (simp_all add: array_sort_def sum_insert_by)

lemma amounts_descend_insert_by:
  "amounts_descend xs \<Longrightarrow> amounts_descend (insert_by by_amount_desc x xs)"
  by (induction xs) (auto simp: amounts_descend_def by_amount_desc_def set_insert_by)

lemma amounts_descend_array_sort: "amounts_descend (array_sort by_amount_desc xs)"
proof (induction xs)
  case Nil
  show ?case by (simp add: array_sort_def amounts_descend_def)
next
  case (Cons x xs)
  then show ?case
    using amounts_descend_insert_by [of "array_sort by_amount_desc xs" x]
    by (simp add: array_sort_def)
qed

subsection \<open>The returned categories\<close>

lemma in_categories:
  "c \<in> set (categories (with_categories s)) \<longleftrightarrow>
     (\<exists>kv \<in> set (entries s). kept kv \<and> c = share (totalIncome s + totalExpenses s) kv)"
  by (auto simp: with_categories_def set_array_sort pushed_categories_eq)

lemma percentage_share:
  "percentage (share tot kv) = (if tot > 0 then 100 * amount (share tot kv) / tot else 0)"
  by (simp add: share_def)

lemma percentage_sum_share:
  "sum_list (map (percentage \<circ> share tot) kvs) =
     (if tot > 0 then 100 * sum_list (map entry_amount kvs) / tot else 0)"
  by (induction kvs) (simp_all add: share_def add_divide_distrib distrib_left)

lemma percentage_sum_categories:
  "sum_list (map percentage (categories (with_categories s))) =
     (if totalIncome s + totalExpenses s > 0
      then 100 * (sales s + \<bar>commissions s\<bar> + \<bar>delivery s\<bar> + \<bar>returns s\<bar> + \<bar>ads s\<bar>
                  + \<bar>services s\<bar>) / (totalIncome s + totalExpenses s)
      else 0)"
proof -
  have "sum_list (map percentage (categories (with_categories s))) =
        sum_list (map (percentage \<circ> share (totalIncome s + totalExpenses s))
                      (filter kept (entries s)))"
    by (simp add: with_categories_def sum_array_sort pushed_categories_eq)
  then show ?thesis
    by (simp only: percentage_sum_share kept_amount_sum)
qed

subsection \<open>The sums over the postings\<close>

lemma foldl_abs_nonneg:
  fixes acc :: number
  shows "0 \<le> acc \<Longrightarrow> 0 \<le> foldl (\<lambda>sum item. sum + \<bar>g item\<bar>) acc items"
  by (induction items arbitrary: acc) simp_all

lemma totalCommissions_nonneg: "0 \<le> totalCommissions d"
  by (cases d) (simp_all add: totalCommissions_def foldl_abs_nonneg)

lemma postings_summary_magnitudes:
  assumes "0 \<le> totalSales d"
  shows "sales (postings_summary d) + \<bar>commissions (postings_summary d)\<bar>
         + \<bar>delivery (postings_summary d)\<bar> + \<bar>returns (postings_summary d)\<bar>
         + \<bar>ads (postings_summary d)\<bar> + \<bar>services (postings_summary d)\<bar>
       = totalIncome (postings_summary d) + totalExpenses (postings_summary d)"
  using assms totalCommissions_nonneg [of d]
  by (simp add: postings_summary_def Let_def totalDelivery_def totalReturns_def totalAds_def
      totalServices_def abs_mult)

subsection \<open>Evaluating the categories of a given summary\<close>

lemma summary_with_categories [simp]: "summary (with_categories s) = s"
  by (simp add: with_categories_def)

lemma useFinanceData_categories:
  assumes "snd (useFinanceData f b) = Inr r"
  shows "categories r = categories (with_categories (summary r))"
  using useFinanceData_result [OF assms] by (rule arg_cong)

lemma categories_eval:
  "categories (with_categories s) =
     array_sort by_amount_desc
       (map (share (totalIncome s + totalExpenses s))
          (filter (\<lambda>kv. snd kv \<noteq> 0)
             [(''sales'', sales s), (''commissions'', commissions s), (''delivery'', delivery s),
              (''returns'', returns s), (''ads'', ads s), (''services'', services s)]))"
  by (simp only: with_categories_def pushed_categories_eq filter_kept colored_entries
      finance_data.simps)

lemmas eval_categories =
  categories_eval share_def entry_amount_def array_sort_def by_amount_desc_def

lemma label_of_simps:
  "label_of ''sales'' = [1055, 1088, 1086, 1076, 1072, 1078, 1080]"
  "label_of ''commissions'' = [1050, 1086, 1084, 1080, 1089, 1089, 1080, 1080]"
  "label_of ''delivery'' = [1044, 1086, 1089, 1090, 1072, 1074, 1082, 1072]"
  "label_of ''returns'' = [1042, 1086, 1079, 1074, 1088, 1072, 1090, 1099]"
  "label_of ''ads'' = [1056, 1077, 1082, 1083, 1072, 1084, 1072]"
  "label_of ''services'' = [1059, 1089, 1083, 1091, 1075, 1080]"
  by (simp_all add: label_of_def CATEGORY_LABELS_def)

lemma category_share: "category (share tot kv) = label_of (fst kv)"
  by (simp add: share_def)

lemma ex_conj_Bex: "(\<exists>x. (P x \<and> x \<in> A) \<and> Q x) \<longleftrightarrow> (\<exists>x \<in> A. P x \<and> Q x)"
  by blast

lemma category_in_categories:
  "l \<in> category ` set (categories (with_categories s)) \<longleftrightarrow>
     (sales s \<noteq> 0 \<and> l = label_of ''sales'')
   \<or> (commissions s \<noteq> 0 \<and> l = label_of ''commissions'')
   \<or> (delivery s \<noteq> 0 \<and> l = label_of ''delivery'')
   \<or> (returns s \<noteq> 0 \<and> l = label_of ''returns'')
   \<or> (ads s \<noteq> 0 \<and> l = label_of ''ads'')
   \<or> (services s \<noteq> 0 \<and> l = label_of ''services'')"
proof -
  have "l \<in> category ` set (categories (with_categories s)) \<longleftrightarrow>
        (\<exists>c. c \<in> set (categories (with_categories s)) \<and> l = category c)"
    by auto
  also have "\<dots> \<longleftrightarrow>
        (\<exists>c. (\<exists>kv \<in> set (entries s).
                kept kv \<and> c = share (totalIncome s + totalExpenses s) kv) \<and> l = category c)"
    by (simp only: in_categories)
  also have "\<dots> \<longleftrightarrow>
        (\<exists>kv. (kv \<in> set (entries s) \<and> kept kv) \<and> l = label_of (fst kv))"
    unfolding Bex_def by (metis category_share)
  also have "\<dots> \<longleftrightarrow>
        (\<exists>kv \<in> {(''sales'', sales s), (''commissions'', commissions s),
                 (''delivery'', delivery s), (''returns'', returns s), (''ads'', ads s),
                 (''services'', services s)}. snd kv \<noteq> 0 \<and> l = label_of (fst kv))"
    by (simp only: kept_entry_iff ex_conj_Bex)
  also have "\<dots> \<longleftrightarrow>
     (sales s \<noteq> 0 \<and> l = label_of ''sales'')
   \<or> (commissions s \<noteq> 0 \<and> l = label_of ''commissions'')
   \<or> (delivery s \<noteq> 0 \<and> l = label_of ''delivery'')
   \<or> (returns s \<noteq> 0 \<and> l = label_of ''returns'')
   \<or> (ads s \<noteq> 0 \<and> l = label_of ''ads'')
   \<or> (services s \<noteq> 0 \<and> l = label_of ''services'')"
    by (simp only: bex_simps fst_conv snd_conv simp_thms)
  finally show ?thesis .
qed

lemma amount_in_categories:
  assumes "c \<in> set (categories (with_categories s))"
  shows "amount c \<noteq> 0 \<and> (amount c = sales s \<or> 0 < amount c)"
proof -
  from assms obtain kv where kv: "kv \<in> set (entries s) \<and> kept kv"
    and c: "c = share (totalIncome s + totalExpenses s) kv"
    by (auto simp: in_categories)
  from kv have "snd kv \<noteq> 0" and "fst kv = ''sales'' \<longrightarrow> snd kv = sales s"
    unfolding kept_entry_iff by auto
  then have "entry_amount kv \<noteq> 0 \<and> (entry_amount kv = sales s \<or> 0 < entry_amount kv)"
    by (auto simp: entry_amount_def)
  with c show ?thesis by (simp add: share_def)
qed

lemma percentage_in_categories:
  assumes "c \<in> set (categories (with_categories s))"
  shows "percentage c =
     (if 0 < totalIncome s + totalExpenses s
      then 100 * amount c / (totalIncome s + totalExpenses s) else 0)"
  using assms by (auto simp: in_categories percentage_share)

subsection \<open>Amounts of the returned categories\<close>

lemma amount_share: "amount (share tot kv) = entry_amount kv"
  by (simp add: share_def)

lemma amount_sum_categories:
  "sum_list (map amount (categories (with_categories s))) =
     sales s + \<bar>commissions s\<bar> + \<bar>delivery s\<bar> + \<bar>returns s\<bar> + \<bar>ads s\<bar> + \<bar>services s\<bar>"
proof -
  have "sum_list (map amount (categories (with_categories s))) =
        sum_list (map (amount \<circ> share (totalIncome s + totalExpenses s))
                      (filter kept (entries s)))"
    by (simp add: with_categories_def sum_array_sort pushed_categories_eq)
  also have "amount \<circ> share (totalIncome s + totalExpenses s) = entry_amount"
    by (rule ext) (simp add: amount_share)
  finally show ?thesis by (simp only: kept_amount_sum)
qed

lemma share_cases:
  assumes "c \<in> set (categories (with_categories s))"
  shows "(category c = label_of ''sales'' \<and> amount c = sales s)
       \<or> (category c \<noteq> label_of ''sales'' \<and> 0 < amount c)"
proof -
  from assms obtain kv where kv: "kv \<in> set (entries s) \<and> kept kv"
    and c: "c = share (totalIncome s + totalExpenses s) kv"
    by (auto simp: in_categories)
  from kv have nz: "snd kv \<noteq> 0"
    and six: "kv \<in> {(''sales'', sales s), (''commissions'', commissions s),
                   (''delivery'', delivery s), (''returns'', returns s), (''ads'', ads s),
                   (''services'', services s)}"
    unfolding kept_entry_iff by simp_all
  from six nz have
    "(label_of (fst kv) = label_of ''sales'' \<and> entry_amount kv = sales s)
     \<or> (label_of (fst kv) \<noteq> label_of ''sales'' \<and> 0 < entry_amount kv)"
    by (elim insertE emptyE) (simp_all add: entry_amount_def label_of_simps)
  with c show ?thesis by (simp add: share_def)
qed

lemma amount_le_magnitudes:
  assumes "c \<in> set (categories (with_categories s))" and "0 \<le> sales s"
  shows "amount c \<le>
     sales s + \<bar>commissions s\<bar> + \<bar>delivery s\<bar> + \<bar>returns s\<bar> + \<bar>ads s\<bar> + \<bar>services s\<bar>"
proof -
  from assms(1) obtain kv where kv: "kv \<in> set (entries s) \<and> kept kv"
    and c: "c = share (totalIncome s + totalExpenses s) kv"
    by (auto simp: in_categories)
  from kv have six: "kv \<in> {(''sales'', sales s), (''commissions'', commissions s),
                   (''delivery'', delivery s), (''returns'', returns s), (''ads'', ads s),
                   (''services'', services s)}"
    unfolding kept_entry_iff by simp
  from six assms(2) have "entry_amount kv \<le>
     sales s + \<bar>commissions s\<bar> + \<bar>delivery s\<bar> + \<bar>returns s\<bar> + \<bar>ads s\<bar> + \<bar>services s\<bar>"
    by (elim insertE emptyE) (simp_all add: entry_amount_def)
  with c show ?thesis by (simp add: share_def)
qed

subsection \<open>The rows of the ledger\<close>

lemma useFinanceBreakdown_rows:
  assumes "snd (useFinanceBreakdown today b) = Inr rows"
  shows "rows = map (map_item today) (fetched b)"
  using assms
  by (cases "transactions b")
     (auto simp: useFinanceBreakdown_def fetched_def split: option.splits)

lemma example_breakdown [simp]:
  "snd (useFinanceBreakdown today example_backend) =
     Inr [map_item today (example_item (- 50)), map_item today (example_item 30)]"
  by (simp add: useFinanceBreakdown_def example_backend_def or_empty_def)

lemma fetched_example [simp]:
  "fetched example_backend = [example_item (- 50), example_item 30]"
  by (simp add: fetched_def example_backend_def or_empty_def)

lemma operation_type_map_item:
  "(truthy (t_operation_type_name item) \<longrightarrow>
      Some (operation_type (map_item today item)) = t_operation_type_name item)
 \<and> (\<not> truthy (t_operation_type_name item) \<and> truthy (t_operation_type item) \<longrightarrow>
      Some (operation_type (map_item today item)) = t_operation_type item)
 \<and> (\<not> truthy (t_operation_type_name item) \<and> \<not> truthy (t_operation_type item) \<longrightarrow>
      operation_type (map_item today item) = ''N/A'')"
  by (auto simp: map_item_def truthy_def or_string_def or_literal_def split: option.splits)

section \<open>Net profit\<close>

text \<open>
  C1, as the code has it. The claim reads: on the primary and on the fallback path alike,
  \<open>netProfit\<close> equals \<open>totalIncome\<close> minus \<open>totalExpenses\<close>. The fallback path
  computes the difference. The primary path copies the \<open>net_profit\<close> field of the remote
  row, so the equation holds there only if the remote row satisfies it.
\<close>

theorem netProfit_by_path:
  assumes "snd (useFinanceData f b) = Inr r"
  shows "(failure (rpc b) \<noteq> None \<longrightarrow>
            netProfit (summary r) = totalIncome (summary r) - totalExpenses (summary r))
       \<and> (failure (rpc b) = None \<longrightarrow>
            netProfit (summary r) = toNumber (net_profit (first_row (payload (rpc b))))
          \<and> totalIncome (summary r) = toNumber (total_income (first_row (payload (rpc b))))
          \<and> totalExpenses (summary r) = toNumber (total_expenses (first_row (payload (rpc b)))))"
proof (intro conjI impI)
  assume "failure (rpc b) \<noteq> None"
  with assms have "summary r = postings_summary (payload (postings_fbs b))"
    by (rule useFinanceData_fallback_summary)
  then show "netProfit (summary r) = totalIncome (summary r) - totalExpenses (summary r)"
    by (simp add: postings_summary_def Let_def)
next
  assume "failure (rpc b) = None"
  with assms have s: "summary r = rpc_summary (first_row (payload (rpc b)))"
    by (rule useFinanceData_primary_summary)
  show "netProfit (summary r) = toNumber (net_profit (first_row (payload (rpc b))))"
    by (simp add: s rpc_summary_def)
  show "totalIncome (summary r) = toNumber (total_income (first_row (payload (rpc b))))"
    by (simp add: s rpc_summary_def)
  show "totalExpenses (summary r) = toNumber (total_expenses (first_row (payload (rpc b))))"
    by (simp add: s rpc_summary_def)
qed

theorem netProfit_by_path_witness:
  "netProfit (postings_summary (Some [example_posting]))
     = totalIncome (postings_summary (Some [example_posting]))
       - totalExpenses (postings_summary (Some [example_posting]))
   \<and> netProfit (summary (projr (snd (useFinanceData example_filters (rpc_answers 100 30 100 30 50))))) = 50"
  using netProfit_by_path [OF example_backend_fallback]
    netProfit_by_path [OF rpc_answers_primary, of 100 30 100 30 50]
  by (simp add: with_categories_def)

text \<open>
  The claim as written fails on the primary path: a remote row with income 100, expenses 30
  and net profit 50 is returned as it came.
\<close>

theorem netProfit_counterexample:
  "\<not> isl (snd (useFinanceData example_filters (rpc_answers 100 30 100 30 50)))
   \<and> netProfit (summary (projr (snd (useFinanceData example_filters (rpc_answers 100 30 100 30 50)))))
     \<noteq> totalIncome (summary (projr (snd (useFinanceData example_filters (rpc_answers 100 30 100 30 50)))))
       - totalExpenses (summary (projr (snd (useFinanceData example_filters (rpc_answers 100 30 100 30 50)))))"
  by (simp add: with_categories_def)

section \<open>Errors\<close>

text \<open>
  C2. \<open>useFinanceData\<close> returns an error exactly when it has issued the postings query and
  that query failed, and the error is that query's. The postings query is issued exactly
  when the remote procedure failed; that failure is written to the console and the run goes
  on as the fallback does, so no failure of the remote procedure reaches the caller.
  \<open>useFinanceBreakdown\<close> returns an error exactly when its one query failed.
\<close>

theorem errors_surfaced:
  "(snd (useFinanceData f b) = Inl e \<longleftrightarrow>
      Postings_query \<in> set (fst (useFinanceData f b)) \<and> failure (postings_fbs b) = Some e)
 \<and> (Postings_query \<in> set (fst (useFinanceData f b)) \<longleftrightarrow> failure (rpc b) \<noteq> None)
 \<and> (failure (rpc b) = Some e' \<longrightarrow>
      Console_warn_rpc_failed e' \<in> set (fst (useFinanceData f b))
      \<and> snd (useFinanceData f b) = snd (fallback f b e'))
 \<and> (snd (useFinanceBreakdown today b) = Inl e \<longleftrightarrow> failure (transactions b) = Some e)"
proof -
  have query: "Postings_query \<in> set (fst (useFinanceData f b)) \<longleftrightarrow> failure (rpc b) \<noteq> None"
  proof (cases "failure (rpc b)")
    case None
    then show ?thesis by (simp add: useFinanceData_primary)
  next
    case (Some x)
    then show ?thesis using fst_fallback [of x f b] by (simp add: useFinanceData_fallback)
  qed
  have surfaced: "snd (useFinanceData f b) = Inl e \<longleftrightarrow>
      failure (rpc b) \<noteq> None \<and> failure (postings_fbs b) = Some e"
  proof (cases "failure (rpc b)")
    case None
    then show ?thesis by (simp add: useFinanceData_primary)
  next
    case (Some x)
    then show ?thesis
      by (simp add: useFinanceData_fallback snd_fallback split: option.splits)
  qed
  have swallowed: "failure (rpc b) = Some e' \<longrightarrow>
      Console_warn_rpc_failed e' \<in> set (fst (useFinanceData f b))
      \<and> snd (useFinanceData f b) = snd (fallback f b e')"
    using fst_fallback [of e' f b] by (simp add: useFinanceData_fallback)
  have ledger: "snd (useFinanceBreakdown today b) = Inl e \<longleftrightarrow> failure (transactions b) = Some e"
    by (cases "transactions b") (simp_all add: useFinanceBreakdown_def split: option.splits)
  from query surfaced swallowed ledger show ?thesis by simp
qed

theorem errors_surfaced_witness:
  "snd (useFinanceData example_filters
          (example_backend\<lparr>postings_fbs := Rejects (Err ''timeout''),
                           transactions := Resolves None (Some (Err ''denied''))\<rparr>))
     = Inl (Err ''timeout'')
   \<and> Console_warn_rpc_failed (Err ''404'')
       \<in> set (fst (useFinanceData example_filters
          (example_backend\<lparr>postings_fbs := Rejects (Err ''timeout''),
                           transactions := Resolves None (Some (Err ''denied''))\<rparr>)))
   \<and> snd (useFinanceBreakdown ''2025-08-29''
          (example_backend\<lparr>postings_fbs := Rejects (Err ''timeout''),
                           transactions := Resolves None (Some (Err ''denied''))\<rparr>))
     \<noteq> Inl (Err ''timeout'')"
  using errors_surfaced [of example_filters
      "example_backend\<lparr>postings_fbs := Rejects (Err ''timeout''),
                        transactions := Resolves None (Some (Err ''denied''))\<rparr>"
      "Err ''timeout''" "Err ''404''" "''2025-08-29''"]
  by (simp add: example_backend_def snd_fallback)

section \<open>The sum of the percentages\<close>

text \<open>
  C3, as the code has it. The claim reads: the percentages of the emitted categories sum to
  at most 100, and all are 0 when \<open>totalIncome + totalExpenses\<close> is 0. The second half
  holds, also for a negative total. The first half does not: a percentage is the amount
  divided by \<open>totalIncome + totalExpenses\<close>, times 100, and the emitted amounts sum to
  \<open>sales + |commissions| + |delivery| + |returns| + |ads| + |services|\<close>, which the
  primary path does not tie to that total. Where the two agree, the quotients of the code
  are rounded doubles and their sum can still pass 100 in the last places (the remote row
  with sales and income 2, commissions and expenses 9 gives 81.81818181818183 and
  18.181818181818183), so no bound on the sum is stated.
\<close>

theorem percentages_of_amounts:
  assumes "snd (useFinanceData f b) = Inr r"
  shows "(totalIncome (summary r) + totalExpenses (summary r) \<le> 0
          \<longrightarrow> (\<forall>c \<in> set (categories r). percentage c = 0))
       \<and> (0 < totalIncome (summary r) + totalExpenses (summary r)
          \<longrightarrow> (\<forall>c \<in> set (categories r).
                 percentage c
                 = amount c / (totalIncome (summary r) + totalExpenses (summary r)) * 100))
       \<and> sum_list (map amount (categories r))
           = sales (summary r) + \<bar>commissions (summary r)\<bar> + \<bar>delivery (summary r)\<bar>
             + \<bar>returns (summary r)\<bar> + \<bar>ads (summary r)\<bar> + \<bar>services (summary r)\<bar>"
proof -
  from assms have cats: "categories r = categories (with_categories (summary r))"
    by (rule useFinanceData_categories)
  have zero: "\<forall>c \<in> set (categories r). percentage c = 0"
    if "totalIncome (summary r) + totalExpenses (summary r) \<le> 0"
    using that unfolding cats by (simp add: percentage_in_categories)
  have quotient: "\<forall>c \<in> set (categories r).
      percentage c = amount c / (totalIncome (summary r) + totalExpenses (summary r)) * 100"
    if "0 < totalIncome (summary r) + totalExpenses (summary r)"
    using that unfolding cats by (simp add: percentage_in_categories)
  have amounts: "sum_list (map amount (categories r))
      = sales (summary r) + \<bar>commissions (summary r)\<bar> + \<bar>delivery (summary r)\<bar>
        + \<bar>returns (summary r)\<bar> + \<bar>ads (summary r)\<bar> + \<bar>services (summary r)\<bar>"
    unfolding cats by (rule amount_sum_categories)
  from zero quotient amounts show ?thesis by blast
qed

theorem percentages_of_amounts_witness:
  "map percentage
      (categories (projr (snd (useFinanceData example_filters (rpc_answers 0 30 0 (- 30) 30)))))
     = [0]
   \<and> map percentage
      (categories (projr (snd (useFinanceData example_filters (rpc_answers 100 (- 20) 100 (- 20) 80)))))
     = [125, 25]
   \<and> sum_list (map amount
      (categories (projr (snd (useFinanceData example_filters example_backend))))) = 246"
  using percentages_of_amounts [OF rpc_answers_primary, of 0 30 0 "- 30" 30]
    percentages_of_amounts [OF rpc_answers_primary, of 100 "- 20" 100 "- 20" 80]
    percentages_of_amounts [OF example_backend_fallback]
  by (simp add: example_postings_summary eval_categories)

text \<open>
  The claim as written fails on the primary path. A remote row that stores the expenses as
  negative numbers, sales and income 100, commissions and expenses -20, gives the shares
  125 and 25 of the total 80.
\<close>

theorem percentage_sum_counterexample:
  "\<not> isl (snd (useFinanceData example_filters (rpc_answers 100 (- 20) 100 (- 20) 80)))
   \<and> 100 < sum_list (map percentage
       (categories (projr (snd (useFinanceData example_filters
          (rpc_answers 100 (- 20) 100 (- 20) 80))))))"
  by (simp add: percentage_sum_categories)

section \<open>The percentage of one category\<close>

text \<open>
  C4, as the code has it. The claim reads: every emitted share has
  \<open>percentage = 100 * amount / total\<close> with \<open>total = totalIncome + totalExpenses\<close>, and
  percentage 0 when the total is 0. The code divides only when the total is positive: the
  percentage is \<open>100 * amount / total\<close> when \<open>total > 0\<close> and 0 when \<open>total \<le> 0\<close>.
\<close>

theorem percentage_of_total:
  assumes "snd (useFinanceData f b) = Inr r" and "c \<in> set (categories r)"
  shows "percentage c =
     (if 0 < totalIncome (summary r) + totalExpenses (summary r)
      then 100 * amount c / (totalIncome (summary r) + totalExpenses (summary r))
      else 0)"
proof -
  from assms(1) have "categories r = categories (with_categories (summary r))"
    by (rule useFinanceData_categories)
  with assms(2) have "c \<in> set (categories (with_categories (summary r)))"
    by simp
  then show ?thesis by (rule percentage_in_categories)
qed

theorem percentage_of_total_witness:
  "hd (categories (projr (snd (useFinanceData example_filters example_backend))))
     \<in> set (categories (projr (snd (useFinanceData example_filters example_backend))))
   \<and> amount (hd (categories (projr (snd (useFinanceData example_filters example_backend))))) = 200
   \<and> percentage (hd (categories (projr (snd (useFinanceData example_filters example_backend)))))
     = 100 * 200 / (200 + 46)"
proof -
  have "hd (categories (with_categories (postings_summary (Some [example_posting]))))
     \<in> set (categories (with_categories (postings_summary (Some [example_posting]))))"
    by (simp add: example_postings_summary eval_categories)
  from percentage_of_total [OF example_backend_fallback this] this show ?thesis
    by (simp add: example_postings_summary eval_categories)
qed

text \<open>
  The claim as written fails when the total is negative. A remote row with income 0 and the
  expenses stored as -30 (all of it commissions) gives one share of amount 30 and
  percentage 0, where \<open>100 * amount / total\<close> is -100.
\<close>

theorem percentage_of_total_counterexample:
  "\<not> isl (snd (useFinanceData example_filters (rpc_answers 0 (- 30) 0 (- 30) 30)))
   \<and> categories (projr (snd (useFinanceData example_filters (rpc_answers 0 (- 30) 0 (- 30) 30))))
     \<noteq> []
   \<and> percentage (hd (categories (projr (snd (useFinanceData example_filters
        (rpc_answers 0 (- 30) 0 (- 30) 30))))))
     \<noteq> 100 * amount (hd (categories (projr (snd (useFinanceData example_filters
        (rpc_answers 0 (- 30) 0 (- 30) 30))))))
       / (totalIncome (summary (projr (snd (useFinanceData example_filters
            (rpc_answers 0 (- 30) 0 (- 30) 30)))))
          + totalExpenses (summary (projr (snd (useFinanceData example_filters
            (rpc_answers 0 (- 30) 0 (- 30) 30))))))"
  by (simp add: eval_categories)

section \<open>Signs and ranges of the shares\<close>

text \<open>
  C5, as the code has it. The claim reads: every emitted share has a non-negative amount and a
  percentage between 0 and 100, also when the sales are negative. The share of the sales
  carries the sales field as it is, negative when the field is. Every other share has a
  positive amount and a percentage that is not negative. So when the sales are not negative,
  every amount is positive and no percentage is negative. On the fallback path with sales
  that are not negative the claim holds in full: every amount is positive and every
  percentage lies between 0 and 100. On either path no percentage is above 100 when the
  sales are not negative and the six magnitudes sum to at most
  \<open>totalIncome + totalExpenses\<close>.
\<close>

theorem share_ranges:
  assumes "snd (useFinanceData f b) = Inr r" and "c \<in> set (categories r)"
  shows "(category c = label_of ''sales'' \<longrightarrow> amount c = sales (summary r))
       \<and> (category c \<noteq> label_of ''sales'' \<longrightarrow> 0 < amount c \<and> 0 \<le> percentage c)
       \<and> (0 \<le> sales (summary r) \<longrightarrow> 0 < amount c \<and> 0 \<le> percentage c)
       \<and> (failure (rpc b) \<noteq> None \<and> 0 \<le> sales (summary r)
          \<longrightarrow> 0 < amount c \<and> 0 \<le> percentage c \<and> percentage c \<le> 100)
       \<and> (0 \<le> sales (summary r)
          \<and> sales (summary r) + \<bar>commissions (summary r)\<bar> + \<bar>delivery (summary r)\<bar>
            + \<bar>returns (summary r)\<bar> + \<bar>ads (summary r)\<bar> + \<bar>services (summary r)\<bar>
            \<le> totalIncome (summary r) + totalExpenses (summary r)
          \<longrightarrow> percentage c \<le> 100)"
proof -
  define s where "s = summary r"
  define tot where "tot = totalIncome s + totalExpenses s"
  define m where "m = sales s + \<bar>commissions s\<bar> + \<bar>delivery s\<bar> + \<bar>returns s\<bar> + \<bar>ads s\<bar>
                      + \<bar>services s\<bar>"
  from assms(1) have "categories r = categories (with_categories s)"
    unfolding s_def by (rule useFinanceData_categories)
  with assms(2) have c: "c \<in> set (categories (with_categories s))"
    by simp
  have cases: "(category c = label_of ''sales'' \<and> amount c = sales s)
             \<or> (category c \<noteq> label_of ''sales'' \<and> 0 < amount c)"
    using c by (rule share_cases)
  have nonzero: "amount c \<noteq> 0"
    using c by (simp add: amount_in_categories)
  have p: "percentage c = (if 0 < tot then 100 * amount c / tot else 0)"
    unfolding tot_def using c by (rule percentage_in_categories)
  have pos: "0 \<le> percentage c" if "0 < amount c"
    using that by (simp add: p)
  have raw: "amount c = sales s" if "category c = label_of ''sales''"
    using cases that by blast
  have others: "0 < amount c \<and> 0 \<le> percentage c" if "category c \<noteq> label_of ''sales''"
    using cases that pos by blast
  have nonneg: "0 < amount c \<and> 0 \<le> percentage c" if "0 \<le> sales s"
  proof -
    from cases that nonzero have "0 < amount c" by auto
    with pos show ?thesis by simp
  qed
  have upper: "percentage c \<le> 100" if "0 \<le> sales s" and "m \<le> tot"
  proof -
    from c that(1) have "amount c \<le> m"
      unfolding m_def by (rule amount_le_magnitudes)
    with that(2) have "amount c \<le> tot" by simp
    then show ?thesis by (simp add: p pos_divide_le_eq)
  qed
  have fallback_full: "0 < amount c \<and> 0 \<le> percentage c \<and> percentage c \<le> 100"
    if "failure (rpc b) \<noteq> None" and "0 \<le> sales s"
  proof -
    from assms(1) that(1) have ps: "s = postings_summary (payload (postings_fbs b))"
      unfolding s_def by (rule useFinanceData_fallback_summary)
    from that(2) have "0 \<le> totalSales (payload (postings_fbs b))"
      by (simp add: ps postings_summary_def Let_def)
    then have "m = tot"
      unfolding m_def tot_def ps by (rule postings_summary_magnitudes)
    with upper that(2) nonneg show ?thesis by simp
  qed
  from raw others nonneg fallback_full upper show ?thesis
    unfolding s_def tot_def m_def by blast
qed

theorem share_ranges_witness:
  "map amount (categories (projr (snd (useFinanceData example_filters example_backend))))
     = [200, 16, 10, 10, 6, 4]
   \<and> category (hd (categories (projr (snd (useFinanceData example_filters example_backend)))))
     = label_of ''sales''
   \<and> 0 \<le> percentage (hd (categories (projr (snd (useFinanceData example_filters example_backend)))))
   \<and> percentage (hd (categories (projr (snd (useFinanceData example_filters example_backend)))))
       \<le> 100
   \<and> category (hd (categories (projr (snd (useFinanceData example_filters
        (rpc_answers (- 50) 150 (- 50) 150 (- 200))))))) \<noteq> label_of ''sales''
   \<and> 0 < amount (hd (categories (projr (snd (useFinanceData example_filters
        (rpc_answers (- 50) 150 (- 50) 150 (- 200)))))))
   \<and> category (last (categories (projr (snd (useFinanceData example_filters
        (rpc_answers (- 50) 150 (- 50) 150 (- 200))))))) = label_of ''sales''
   \<and> amount (last (categories (projr (snd (useFinanceData example_filters
        (rpc_answers (- 50) 150 (- 50) 150 (- 200))))))) = - 50"
proof -
  have a: "hd (categories (with_categories (postings_summary (Some [example_posting]))))
     \<in> set (categories (with_categories (postings_summary (Some [example_posting]))))"
    by (simp add: example_postings_summary eval_categories)
  have b: "hd (categories (with_categories
       \<lparr>sales = - 50, commissions = 150, delivery = 0, returns = 0, ads = 0, services = 0,
        totalIncome = - 50, totalExpenses = 150, netProfit = - 200\<rparr>))
     \<in> set (categories (with_categories
       \<lparr>sales = - 50, commissions = 150, delivery = 0, returns = 0, ads = 0, services = 0,
        totalIncome = - 50, totalExpenses = 150, netProfit = - 200\<rparr>))"
    by (simp add: eval_categories)
  have c: "last (categories (with_categories
       \<lparr>sales = - 50, commissions = 150, delivery = 0, returns = 0, ads = 0, services = 0,
        totalIncome = - 50, totalExpenses = 150, netProfit = - 200\<rparr>))
     \<in> set (categories (with_categories
       \<lparr>sales = - 50, commissions = 150, delivery = 0, returns = 0, ads = 0, services = 0,
        totalIncome = - 50, totalExpenses = 150, netProfit = - 200\<rparr>))"
    by (simp add: eval_categories)
  from share_ranges [OF example_backend_fallback a]
    share_ranges [OF rpc_answers_primary b] share_ranges [OF rpc_answers_primary c]
  show ?thesis
    by (simp add: example_postings_summary eval_categories label_of_simps)
qed

text \<open>
  The claim as written fails for negative sales. A remote row with sales and income -50
  and commissions and expenses 150 gives the total 100 and two shares: commissions with
  percentage 150, and sales with amount -50 and percentage -50.
\<close>

theorem share_ranges_counterexample:
  "\<not> isl (snd (useFinanceData example_filters (rpc_answers (- 50) 150 (- 50) 150 (- 200))))
   \<and> length (categories (projr (snd (useFinanceData example_filters
        (rpc_answers (- 50) 150 (- 50) 150 (- 200)))))) = 2
   \<and> amount (categories (projr (snd (useFinanceData example_filters
        (rpc_answers (- 50) 150 (- 50) 150 (- 200))))) ! 1) < 0
   \<and> percentage (categories (projr (snd (useFinanceData example_filters
        (rpc_answers (- 50) 150 (- 50) 150 (- 200))))) ! 1) < 0
   \<and> 100 < percentage (categories (projr (snd (useFinanceData example_filters
        (rpc_answers (- 50) 150 (- 50) 150 (- 200))))) ! 0)"
  by (simp add: eval_categories)

section \<open>The fallback summary of one posting\<close>

text \<open>
  C6. With the remote procedure failing and the postings query answering the one row
  \<open>{price: 100, quantity: 2, commission_amount: -10}\<close>, the summary is sales and income
  200, commissions 10, delivery 16, returns 4, ads 6, services 10, expenses 46 and net profit
  154. For any answer of the postings query the four detail expenses are 0.08, 0.02, 0.03
  and 0.05 of the sales.
\<close>

theorem fallback_one_posting:
  assumes "failure (rpc b) \<noteq> None"
    and "postings_fbs b =
           Resolves (Some [\<lparr>price = Num 100, quantity = Num 2, commission_amount = Num (- 10)\<rparr>]) None"
  shows "snd (useFinanceData f b) =
           Inr (with_categories
             \<lparr>sales = 200, commissions = 10, delivery = 16, returns = 4, ads = 6, services = 10,
              totalIncome = 200, totalExpenses = 46, netProfit = 154\<rparr>)
       \<and> delivery (postings_summary d) = 8 / 100 * sales (postings_summary d)
       \<and> returns (postings_summary d) = 2 / 100 * sales (postings_summary d)
       \<and> ads (postings_summary d) = 3 / 100 * sales (postings_summary d)
       \<and> services (postings_summary d) = 5 / 100 * sales (postings_summary d)"
proof -
  from assms(1) obtain e where "failure (rpc b) = Some e" by auto
  then have "snd (useFinanceData f b) = snd (fallback f b e)"
    by (simp add: useFinanceData_fallback)
  also have "\<dots> = Inr (with_categories (postings_summary (Some [example_posting])))"
    by (simp add: snd_fallback assms(2) example_posting_def)
  finally have "snd (useFinanceData f b) =
      Inr (with_categories (postings_summary (Some [example_posting])))" .
  moreover have "delivery (postings_summary d) = 8 / 100 * sales (postings_summary d)"
    "returns (postings_summary d) = 2 / 100 * sales (postings_summary d)"
    "ads (postings_summary d) = 3 / 100 * sales (postings_summary d)"
    "services (postings_summary d) = 5 / 100 * sales (postings_summary d)"
    by (simp_all add: postings_summary_def Let_def totalDelivery_def totalReturns_def
        totalAds_def totalServices_def)
  ultimately show ?thesis by (simp add: example_postings_summary)
qed

theorem fallback_one_posting_witness:
  "summary (projr (snd (useFinanceData example_filters example_backend))) =
     \<lparr>sales = 200, commissions = 10, delivery = 16, returns = 4, ads = 6, services = 10,
      totalIncome = 200, totalExpenses = 46, netProfit = 154\<rparr>"
  using fallback_one_posting [of example_backend example_filters]
  by (simp add: example_backend_def example_posting_def with_categories_def)

section \<open>The mapping of a ledger entry\<close>

text \<open>
  C7. Every row of \<open>useFinanceBreakdown\<close> comes from the fetched entry at the same
  position. With \<open>a\<close> the amount of the entry as a number: sales is \<open>a\<close> if
  \<open>a > 0\<close> and 0 otherwise; commissions is \<open>|a|\<close> if \<open>a < 0\<close> and 0 otherwise;
  delivery, returns, ads and services are 0; the net profit is \<open>a\<close>; the operation type is
  the name of the operation type if there is one (not null and not empty), else its code if
  there is one, else \<open>N/A\<close>. The amount -50 gives sales 0, commissions 50, net profit -50;
  the amount 30 gives sales 30, commissions 0, net profit 30.
\<close>

theorem ledger_row_mapping:
  assumes "snd (useFinanceBreakdown today b) = Inr rows" and "i < length (fetched b)"
  shows "length rows = length (fetched b)
       \<and> (let item = fetched b ! i; row = rows ! i; a = toNumber (t_amount item) in
            b_sales row = (if a > 0 then a else 0)
          \<and> b_commissions row = (if a < 0 then \<bar>a\<bar> else 0)
          \<and> b_delivery row = 0 \<and> b_returns row = 0 \<and> b_ads row = 0 \<and> b_services row = 0
          \<and> b_net_profit row = a
          \<and> (truthy (t_operation_type_name item) \<longrightarrow>
                Some (operation_type row) = t_operation_type_name item)
          \<and> (\<not> truthy (t_operation_type_name item) \<and> truthy (t_operation_type item) \<longrightarrow>
                Some (operation_type row) = t_operation_type item)
          \<and> (\<not> truthy (t_operation_type_name item) \<and> \<not> truthy (t_operation_type item) \<longrightarrow>
                operation_type row = ''N/A'')
          \<and> (t_amount item = Num (- 50) \<longrightarrow>
                b_sales row = 0 \<and> b_commissions row = 50 \<and> b_net_profit row = - 50)
          \<and> (t_amount item = Num 30 \<longrightarrow>
                b_sales row = 30 \<and> b_commissions row = 0 \<and> b_net_profit row = 30))"
proof -
  from assms(1) have rows: "rows = map (map_item today) (fetched b)"
    by (rule useFinanceBreakdown_rows)
  with assms(2) have row: "rows ! i = map_item today (fetched b ! i)"
    by simp
  have numbers:
    "b_sales (map_item today item) =
       (if toNumber (t_amount item) > 0 then toNumber (t_amount item) else 0)"
    "b_commissions (map_item today item) =
       (if toNumber (t_amount item) < 0 then \<bar>toNumber (t_amount item)\<bar> else 0)"
    "b_delivery (map_item today item) = 0" "b_returns (map_item today item) = 0"
    "b_ads (map_item today item) = 0" "b_services (map_item today item) = 0"
    "b_net_profit (map_item today item) = toNumber (t_amount item)"
    for item
    by (simp_all add: map_item_def)
  show ?thesis
    unfolding Let_def row
    using operation_type_map_item [of "fetched b ! i" today]
    by (simp add: rows numbers)
qed

theorem ledger_row_mapping_witness:
  "map b_sales (projr (snd (useFinanceBreakdown ''2025-08-29'' example_backend))) = [0, 30]
   \<and> map b_commissions (projr (snd (useFinanceBreakdown ''2025-08-29'' example_backend)))
       = [50, 0]
   \<and> map b_net_profit (projr (snd (useFinanceBreakdown ''2025-08-29'' example_backend)))
       = [- 50, 30]
   \<and> map operation_type (projr (snd (useFinanceBreakdown ''2025-08-29'' example_backend)))
       = [''OperationAgentDeliveredToCustomer'', ''OperationAgentDeliveredToCustomer'']"
  using ledger_row_mapping [OF example_breakdown, of 0 "''2025-08-29''"]
    ledger_row_mapping [OF example_breakdown, of 1 "''2025-08-29''"]
  by (simp add: example_item_def truthy_def Let_def)

section \<open>No share of amount 0\<close>

text \<open>
  C8. No returned share has the amount 0, and a category whose field of the summary is 0
  has no share in the list.
\<close>

theorem zero_categories_excluded:
  assumes "snd (useFinanceData f b) = Inr r"
  shows "(\<forall>c \<in> set (categories r). amount c \<noteq> 0)
       \<and> (sales (summary r) = 0 \<longrightarrow> label_of ''sales'' \<notin> category ` set (categories r))
       \<and> (commissions (summary r) = 0 \<longrightarrow>
            label_of ''commissions'' \<notin> category ` set (categories r))
       \<and> (delivery (summary r) = 0 \<longrightarrow> label_of ''delivery'' \<notin> category ` set (categories r))
       \<and> (returns (summary r) = 0 \<longrightarrow> label_of ''returns'' \<notin> category ` set (categories r))
       \<and> (ads (summary r) = 0 \<longrightarrow> label_of ''ads'' \<notin> category ` set (categories r))
       \<and> (services (summary r) = 0 \<longrightarrow> label_of ''services'' \<notin> category ` set (categories r))"
proof -
  from assms have cats: "categories r = categories (with_categories (summary r))"
    by (rule useFinanceData_categories)
  have amounts: "\<forall>c \<in> set (categories r). amount c \<noteq> 0"
    unfolding cats by (simp add: amount_in_categories)
  have labels:
    "sales (summary r) = 0 \<longrightarrow> label_of ''sales'' \<notin> category ` set (categories r)"
    "commissions (summary r) = 0 \<longrightarrow> label_of ''commissions'' \<notin> category ` set (categories r)"
    "delivery (summary r) = 0 \<longrightarrow> label_of ''delivery'' \<notin> category ` set (categories r)"
    "returns (summary r) = 0 \<longrightarrow> label_of ''returns'' \<notin> category ` set (categories r)"
    "ads (summary r) = 0 \<longrightarrow> label_of ''ads'' \<notin> category ` set (categories r)"
    "services (summary r) = 0 \<longrightarrow> label_of ''services'' \<notin> category ` set (categories r)"
    unfolding cats by (simp_all add: category_in_categories label_of_simps)
  from amounts labels show ?thesis by simp
qed

theorem zero_categories_excluded_witness:
  "map amount (categories (projr (snd (useFinanceData example_filters
      (rpc_answers 100 0 100 0 100))))) = [100]
   \<and> label_of ''commissions''
       \<notin> category ` set (categories (projr (snd (useFinanceData example_filters
            (rpc_answers 100 0 100 0 100)))))"
  using zero_categories_excluded [OF rpc_answers_primary, of 100 0 100 0 100]
  by (simp add: eval_categories)

section \<open>The order of the shares\<close>

text \<open>C9. The returned list of shares is sorted by amount, largest first.\<close>

theorem categories_sorted:
  assumes "snd (useFinanceData f b) = Inr r"
  shows "amounts_descend (categories r)"
proof -
  from assms have "categories r = categories (with_categories (summary r))"
    by (rule useFinanceData_categories)
  then have "categories r = array_sort by_amount_desc (pushed_categories (summary r))"
    by (simp add: with_categories_def)
  then show ?thesis by (simp only: amounts_descend_array_sort)
qed

theorem categories_sorted_witness:
  "amounts_descend (categories (projr (snd (useFinanceData example_filters example_backend))))
   \<and> map amount (categories (projr (snd (useFinanceData example_filters example_backend))))
     = [200, 16, 10, 10, 6, 4]"
  using categories_sorted [OF example_backend_fallback]
  by (simp add: example_postings_summary eval_categories)

section \<open>Sales and commissions of a ledger row\<close>

text \<open>
  C10. In every row of \<open>useFinanceBreakdown\<close> sales and commissions are not negative,
  at most one of them is not 0, and sales minus commissions is the net profit.
\<close>

theorem ledger_row_balance:
  assumes "snd (useFinanceBreakdown today b) = Inr rows" and "row \<in> set rows"
  shows "0 \<le> b_sales row \<and> 0 \<le> b_commissions row
       \<and> (b_sales row = 0 \<or> b_commissions row = 0)
       \<and> b_sales row - b_commissions row = b_net_profit row"
proof -
  from assms(1) have "rows = map (map_item today) (fetched b)"
    by (rule useFinanceBreakdown_rows)
  with assms(2) obtain item where "row = map_item today item"
    by auto
  then show ?thesis by (simp add: map_item_def)
qed

theorem ledger_row_balance_witness:
  "map_item ''2025-08-29'' (example_item (- 50))
     \<in> set (projr (snd (useFinanceBreakdown ''2025-08-29'' example_backend)))
   \<and> b_sales (map_item ''2025-08-29'' (example_item (- 50))) = 0
   \<and> b_commissions (map_item ''2025-08-29'' (example_item (- 50))) = 50
   \<and> b_sales (map_item ''2025-08-29'' (example_item (- 50)))
       - b_commissions (map_item ''2025-08-29'' (example_item (- 50)))
     = b_net_profit (map_item ''2025-08-29'' (example_item (- 50)))"
proof -
  have "map_item ''2025-08-29'' (example_item (- 50))
     \<in> set [map_item ''2025-08-29'' (example_item (- 50)),
             map_item ''2025-08-29'' (example_item 30)]"
    by simp
  from ledger_row_balance [OF example_breakdown this] show ?thesis
    by (simp add: map_item_def example_item_def)
qed

end
